theory Spec2Isabelle
  imports Main
begin

section \<open>Python values shared by both files\<close>

text \<open>
  A Python \<^verbatim>\<open>str\<close> is a sequence of Unicode code points, so it is modelled as a list
  of code points. \<open>lit\<close> embeds the ASCII text of a source literal.
\<close>

type_synonym pystr = "nat list"

definition lit :: "string \<Rightarrow> pystr" where
  "lit s = map of_char s"

text \<open>Exceptions are values; a computation returns \<open>pyexc + 'a\<close>.\<close>

datatype pyexc =
    AttributeError string string  \<comment> \<open>type name of the object, attribute asked for\<close>
  | ValueError
  | UnboundLocalError string
  | NameError string
  | TypeError string  \<comment> \<open>type name of the object that was called and is not callable\<close>
  | OSError

subsection \<open>\<^verbatim>\<open>str(int)\<close>: decimal rendering\<close>

fun digits :: "nat \<Rightarrow> pystr" where
  "digits n = (if n < 10 then [48 + n] else digits (n div 10) @ [48 + n mod 10])"

declare digits.simps [simp del]

definition str_int :: "int \<Rightarrow> pystr" where
  "str_int i = (if i < 0 then 45 # digits (nat (- i)) else digits (nat i))"

text \<open>Reading a digit string back, to say what "decimal rendering" means.\<close>

definition digits_value :: "pystr \<Rightarrow> nat" where
  "digits_value ds = foldl (\<lambda>acc d. 10 * acc + (d - 48)) 0 ds"

section \<open>\<^verbatim>\<open>src/test-python/main.py\<close>\<close>

text \<open>
  \<^verbatim>\<open>process_data\<close> receives the dictionary that \<^verbatim>\<open>response.json()\<close> decoded, so
  its values are JSON values: \<^verbatim>\<open>None\<close>, a \<^verbatim>\<open>bool\<close>, an \<^verbatim>\<open>int\<close>, a \<^verbatim>\<open>str\<close>, or
  a \<^verbatim>\<open>float\<close>, \<^verbatim>\<open>list\<close> or \<^verbatim>\<open>dict\<close>. The last three are kept abstract as
  \<open>POther tn s\<close>: an object whose type is named \<open>tn\<close>, that has no attribute
  \<^verbatim>\<open>upper\<close> or \<^verbatim>\<open>lower\<close>, and for which \<^verbatim>\<open>str()\<close> returns the text \<open>s\<close>.
\<close>

datatype pyval =
    PNone
  | PBool bool
  | PInt int
  | PStr pystr
  | POther string pystr

type_synonym pydict = "pystr \<rightharpoonup> pyval"

text \<open>
  What the interpreter supplies and the source file does not: the Unicode case
  mappings behind \<^verbatim>\<open>str.upper\<close> and \<^verbatim>\<open>str.lower\<close>, and the limit
  \<^verbatim>\<open>sys.get_int_max_str_digits()\<close> on the digits of an \<^verbatim>\<open>int\<close> to \<^verbatim>\<open>str\<close> conversion
  (\<open>0\<close> switches the limit off; CPython 3.11 starts with 4300).
\<close>

record pyruntime =
  str_upper :: "pystr \<Rightarrow> pystr"
  str_lower :: "pystr \<Rightarrow> pystr"
  int_max_str_digits :: nat

fun type_name :: "pyval \<Rightarrow> string" where
  "type_name PNone = ''NoneType''"
| "type_name (PBool b) = ''bool''"
| "type_name (PInt i) = ''int''"
| "type_name (PStr s) = ''str''"
| "type_name (POther tn s) = tn"

text \<open>\<^verbatim>\<open>v.upper()\<close> and \<^verbatim>\<open>v.lower()\<close>: only a \<^verbatim>\<open>str\<close> has the attribute.\<close>

fun call_upper :: "pyruntime \<Rightarrow> pyval \<Rightarrow> pyexc + pystr" where
  "call_upper rt (PStr s) = Inr (str_upper rt s)"
| "call_upper rt v = Inl (AttributeError (type_name v) ''upper'')"

fun call_lower :: "pyruntime \<Rightarrow> pyval \<Rightarrow> pyexc + pystr" where
  "call_lower rt (PStr s) = Inr (str_lower rt s)"
| "call_lower rt v = Inl (AttributeError (type_name v) ''lower'')"

text \<open>\<^verbatim>\<open>str(v)\<close>.\<close>

fun py_str :: "pyruntime \<Rightarrow> pyval \<Rightarrow> pyexc + pystr" where
  "py_str rt PNone = Inr (lit ''None'')"
| "py_str rt (PBool b) = Inr (if b then lit ''True'' else lit ''False'')"
| "py_str rt (PInt i) =
     (if 0 < int_max_str_digits rt \<and> int_max_str_digits rt < length (digits (nat \<bar>i\<bar>))
      then Inl ValueError
      else Inr (str_int i))"
| "py_str rt (PStr s) = Inr s"
| "py_str rt (POther tn s) = Inr s"

text \<open>
  \<^verbatim>\<open>data.get(key, default)\<close> is an operation on the dictionary object: it returns
  the value found and the dictionary as it is afterwards.
\<close>

definition dict_get :: "pystr \<Rightarrow> pyval \<Rightarrow> pydict \<Rightarrow> pyval \<times> pydict" where
  "dict_get k d m = (case m k of None \<Rightarrow> (d, m) | Some v \<Rightarrow> (v, m))"

text \<open>
  \<^verbatim>\<open>
  def process_data(data):
      result = data.get("name", "").upper() + " - " + data.get("email", "").lower() + " - " + str(data.get("age", 0)) + " years old"
      return result
  \<close>
  The operands are evaluated left to right and \<^verbatim>\<open>+\<close> associates to the left. The
  function returns its outcome (the exception raised or the string) together with
  the dictionary as the call leaves it.
\<close>

definition process_data :: "pyruntime \<Rightarrow> pydict \<Rightarrow> (pyexc + pystr) \<times> pydict" where
  "process_data rt data =
     (case dict_get (lit ''name'') (PStr []) data of (v1, data1) \<Rightarrow>
       (case call_upper rt v1 of
          Inl e \<Rightarrow> (Inl e, data1)
        | Inr s1 \<Rightarrow>
           (case dict_get (lit ''email'') (PStr []) data1 of (v2, data2) \<Rightarrow>
             (case call_lower rt v2 of
                Inl e \<Rightarrow> (Inl e, data2)
              | Inr s2 \<Rightarrow>
                 (case dict_get (lit ''age'') (PInt 0) data2 of (v3, data3) \<Rightarrow>
                   (case py_str rt v3 of
                      Inl e \<Rightarrow> (Inl e, data3)
                    | Inr s3 \<Rightarrow>
                       (Inr (((((s1 @ lit '' - '') @ s2) @ lit '' - '') @ s3)
                               @ lit '' years old''),
                        data3)))))))"

text \<open>
  A runtime to evaluate examples with: the case mappings restricted to ASCII letters
  (where they agree with Python's) and CPython's default digit limit.
\<close>

definition ascii_upper :: "pystr \<Rightarrow> pystr" where
  "ascii_upper s = map (\<lambda>c. if 97 \<le> c \<and> c \<le> 122 then c - 32 else c) s"

definition ascii_lower :: "pystr \<Rightarrow> pystr" where
  "ascii_lower s = map (\<lambda>c. if 65 \<le> c \<and> c \<le> 90 then c + 32 else c) s"

definition ascii_runtime :: pyruntime where
  "ascii_runtime =
     \<lparr>str_upper = ascii_upper, str_lower = ascii_lower, int_max_str_digits = 4300\<rparr>"

section \<open>\<^verbatim>\<open>src/savepoints/2025-07-14-Audit-Transparency-System/test-python-error.py\<close>\<close>

text \<open>
  The objects a name of this file can be bound to: \<^verbatim>\<open>None\<close>, integers, strings, lists,
  the interpreter's builtins (by name), and any other callable object (a function, a
  class, a bound method), kept abstract under a name.
\<close>

datatype pyobj =
    IntObj int
  | ListObj "pyobj list"
  | BuiltinObj string
  | NoneObj
  | StrObj pystr
  | CallableObj string

type_synonym scope = "string \<rightharpoonup> pyobj"

text \<open>
  Name resolution inside a function body. A name that the body assigns anywhere is a
  local of the function: reading it looks at the frame's locals only and raises
  \<^verbatim>\<open>UnboundLocalError\<close> when it is not bound yet. Any other name is looked up in the
  module's globals and then in the builtins.
\<close>

record pyenv =
  globals :: scope
  builtins :: scope

definition load_name :: "string list \<Rightarrow> scope \<Rightarrow> pyenv \<Rightarrow> string \<Rightarrow> pyexc + pyobj" where
  "load_name assigned locals env n =
     (if n \<in> set assigned
      then (case locals n of None \<Rightarrow> Inl (UnboundLocalError n) | Some v \<Rightarrow> Inr v)
      else (case globals env n of
              Some v \<Rightarrow> Inr v
            | None \<Rightarrow> (case builtins env n of None \<Rightarrow> Inl (NameError n) | Some v \<Rightarrow> Inr v)))"

text \<open>A name that no function body assigns: globals, then builtins.\<close>

definition load_global :: "pyenv \<Rightarrow> string \<Rightarrow> pyexc + pyobj" where
  "load_global env n = load_name [] Map.empty env n"

text \<open>
  Standard output, \<^verbatim>\<open>sys.stdout\<close>: a stream that accepts writes and holds the lines
  written so far, a stream whose \<^verbatim>\<open>write\<close> raises (\<^verbatim>\<open>ValueError\<close> once it is closed,
  \<^verbatim>\<open>OSError\<close> on a broken pipe), or \<^verbatim>\<open>None\<close>, for which \<^verbatim>\<open>print\<close> writes nothing.
\<close>

datatype stdout_state =
    StdoutOpen "pystr list"
  | StdoutFailing pyexc
  | StdoutNone

fun stdout_write :: "pystr \<Rightarrow> stdout_state \<Rightarrow> pyexc + stdout_state" where
  "stdout_write s (StdoutOpen ls) = Inr (StdoutOpen (ls @ [s]))"
| "stdout_write s (StdoutFailing e) = Inl e"
| "stdout_write s StdoutNone = Inr StdoutNone"

text \<open>
  The outcome of a call: the exception raised or the value returned, and standard
  output as the call leaves it; \<open>None\<close> when the call does not come back.
\<close>

type_synonym outcome = "((pyexc + pyobj) \<times> stdout_state) option"

text \<open>The builtin \<^verbatim>\<open>print\<close> on one string: it writes the line and returns \<^verbatim>\<open>None\<close>.\<close>

definition py_print :: "pystr \<Rightarrow> stdout_state \<Rightarrow> (pyexc + pyobj) \<times> stdout_state" where
  "py_print s st =
     (case stdout_write s st of Inl e \<Rightarrow> (Inl e, st) | Inr st1 \<Rightarrow> (Inr NoneObj, st1))"

text \<open>
  Calling an object with one string argument. What a callable other than the builtin
  \<^verbatim>\<open>print\<close> does is not in this file: it is the parameter \<open>co\<close>. A callee is
  given its argument and standard output; the caller's local variables are not
  within its reach. An object that is not callable raises \<^verbatim>\<open>TypeError\<close>.
\<close>

type_synonym callables = "pyobj \<Rightarrow> pystr \<Rightarrow> stdout_state \<Rightarrow> outcome"

fun call_with_str :: "callables \<Rightarrow> pyobj \<Rightarrow> pystr \<Rightarrow> stdout_state \<Rightarrow> outcome" where
  "call_with_str co (BuiltinObj n) s st =
     (if n = ''print'' then Some (py_print s st) else co (BuiltinObj n) s st)"
| "call_with_str co (CallableObj n) s st = co (CallableObj n) s st"
| "call_with_str co NoneObj s st = Some (Inl (TypeError ''NoneType''), st)"
| "call_with_str co (IntObj i) s st = Some (Inl (TypeError ''int''), st)"
| "call_with_str co (StrObj t) s st = Some (Inl (TypeError ''str''), st)"
| "call_with_str co (ListObj xs) s st = Some (Inl (TypeError ''list''), st)"

text \<open>
  \<^verbatim>\<open>
  def bad_function( ):
      unused_variable = 42
      x=1+2
      print("hello world")
      if True:
          pass
      return x
  \<close>
  The body assigns \<^verbatim>\<open>unused_variable\<close> and \<^verbatim>\<open>x\<close>, so these are its locals; \<^verbatim>\<open>print\<close>
  is looked up in the globals and the builtins at the call, and what it is bound to is
  called; the value the call returns is dropped. \<open>bad_function_body u\<close> is the body
  with the value stored in \<^verbatim>\<open>unused_variable\<close> left open; \<open>bad_function\<close> is the body
  as the source has it.
\<close>

definition bad_function_body :: "pyobj \<Rightarrow> callables \<Rightarrow> pyenv \<Rightarrow> stdout_state \<Rightarrow> outcome" where
  "bad_function_body u co env st =
     (let assigned = [''unused_variable'', ''x''];
          locals0 = Map.empty;
          locals1 = locals0(''unused_variable'' \<mapsto> u);
          locals2 = locals1(''x'' \<mapsto> IntObj (1 + 2))
      in (case load_name assigned locals2 env ''print'' of
            Inl e \<Rightarrow> Some (Inl e, st)
          | Inr f \<Rightarrow>
             (case call_with_str co f (lit ''hello world'') st of
                None \<Rightarrow> None
              | Some (Inl e, st1) \<Rightarrow> Some (Inl e, st1)
              | Some (Inr r, st1) \<Rightarrow>
                 (let locals3 = (if True then locals2 else locals2)  \<comment> \<open>\<^verbatim>\<open>if True: pass\<close>\<close>
                  in Some (load_name assigned locals3 env ''x'', st1)))))"

definition bad_function :: "callables \<Rightarrow> pyenv \<Rightarrow> stdout_state \<Rightarrow> outcome" where
  "bad_function co env st = bad_function_body (IntObj 42) co env st"

text \<open>
  \<^verbatim>\<open>
  class BadClass:
      def __init__(self):
          pass
      def method(self):
          list = [1,2,3,4,5]
          return list
  \<close>
  An instance carries its attribute dictionary; \<^verbatim>\<open>__init__\<close> stores nothing in it.
\<close>

record BadClass =
  inst_dict :: scope

definition BadClass_init :: BadClass where
  "BadClass_init = \<lparr>inst_dict = Map.empty\<rparr>"

definition BadClass_method :: "pyenv \<Rightarrow> BadClass \<Rightarrow> pyexc + pyobj" where
  "BadClass_method env self =
     (let assigned = [''list''];
          locals0 = Map.empty;
          locals1 = locals0(''list'' \<mapsto> ListObj [IntObj 1, IntObj 2, IntObj 3, IntObj 4, IntObj 5])
      in load_name assigned locals1 env ''list'')"

text \<open>
  The interpreter's builtins that the file's names could refer to, and a table of
  callables for an interpreter that has no other callable than the builtin
  \<^verbatim>\<open>print\<close>.
\<close>

definition no_callables :: callables where
  "no_callables f s st = None"

definition std_env :: pyenv where
  "std_env =
     \<lparr>globals = Map.empty,
      builtins = [''list'' \<mapsto> BuiltinObj ''list'', ''print'' \<mapsto> BuiltinObj ''print'']\<rparr>"

section \<open>Properties of \<^verbatim>\<open>process_data\<close>\<close>

lemma digits_value_snoc: "digits_value (ds @ [d]) = 10 * digits_value ds + (d - 48)"
  by (simp add: digits_value_def)

lemma digits_value_digits: "digits_value (digits n) = n"
proof (induction n rule: digits.induct)
  case (1 n)
  show ?case
  proof (cases "n < 10")
    case True
    then show ?thesis
      by (subst digits.simps) (simp add: digits_value_def)
  next
    case False
    with 1 have "digits_value (digits (n div 10)) = n div 10"
      by simp
    with False show ?thesis
      by (subst digits.simps) (simp add: digits_value_snoc)
  qed
qed

lemma dict_get_frame: "snd (dict_get k d m) = m"
  by (simp add: dict_get_def split: option.split)

text \<open>
  C1, as amended. When the value that \<^verbatim>\<open>data.get("name", "")\<close> yields is a string
  \<open>n\<close>, the one for \<^verbatim>\<open>"email"\<close> is a string \<open>e\<close>, and the one that
  \<^verbatim>\<open>data.get("age", 0)\<close> yields is an \<^verbatim>\<open>int\<close> \<open>a\<close> that is not a \<^verbatim>\<open>bool\<close> and whose
  digits are within the interpreter's conversion limit, \<^verbatim>\<open>process_data\<close> returns the
  upper-cased \<open>n\<close>, \<^verbatim>\<open>" - "\<close>, the lower-cased \<open>e\<close>, \<^verbatim>\<open>" - "\<close>, the decimal
  rendering of \<open>a\<close> and \<^verbatim>\<open>" years old"\<close>, concatenated in this order. This is all the
  call does: nothing is raised and the dictionary is as it was.
\<close>

theorem process_data_typed:
  assumes "fst (dict_get (lit ''name'') (PStr []) data) = PStr n"
    and "fst (dict_get (lit ''email'') (PStr []) data) = PStr e"
    and "fst (dict_get (lit ''age'') (PInt 0) data) = PInt a"
    and "int_max_str_digits rt = 0 \<or> length (digits (nat \<bar>a\<bar>)) \<le> int_max_str_digits rt"
  shows "process_data rt data =
           (Inr (str_upper rt n @ lit '' - '' @ str_lower rt e @ lit '' - ''
                   @ str_int a @ lit '' years old''),
            data)"
proof -
  from assms(1) have g1: "dict_get (lit ''name'') (PStr []) data = (PStr n, data)"
    by (auto simp: dict_get_def split: option.splits)
  from assms(2) have g2: "dict_get (lit ''email'') (PStr []) data = (PStr e, data)"
    by (auto simp: dict_get_def split: option.splits)
  from assms(3) have g3: "dict_get (lit ''age'') (PInt 0) data = (PInt a, data)"
    by (auto simp: dict_get_def split: option.splits)
  from assms(4) have s: "py_str rt (PInt a) = Inr (str_int a)"
    by (elim disjE) simp_all
  show ?thesis
    by (simp add: process_data_def g1 g2 g3 s del: py_str.simps)
qed

theorem process_data_typed_witness:
  "process_data ascii_runtime
     [lit ''name'' \<mapsto> PStr (lit ''Ada''),
      lit ''email'' \<mapsto> PStr (lit ''Ada@Example.ORG''),
      lit ''age'' \<mapsto> PInt 36]
     = (Inr (lit ''ADA - ada@example.org - 36 years old''),
        [lit ''name'' \<mapsto> PStr (lit ''Ada''),
         lit ''email'' \<mapsto> PStr (lit ''Ada@Example.ORG''),
         lit ''age'' \<mapsto> PInt 36])"
  using process_data_typed
    [of "[lit ''name'' \<mapsto> PStr (lit ''Ada''),
          lit ''email'' \<mapsto> PStr (lit ''Ada@Example.ORG''),
          lit ''age'' \<mapsto> PInt 36]"
        "lit ''Ada''" "lit ''Ada@Example.ORG''" 36 ascii_runtime]
  by (simp add: dict_get_def lit_def ascii_runtime_def ascii_upper_def ascii_lower_def
        str_int_def digits.simps)

text \<open>
  A \<^verbatim>\<open>bool\<close> is not rendered in decimal: \<^verbatim>\<open>{"age": True}\<close> gives
  \<^verbatim>\<open>" -  - True years old"\<close>.
\<close>

lemma process_data_bool_age:
  "fst (process_data ascii_runtime [lit ''age'' \<mapsto> PBool True])
     = Inr (lit '' -  - True years old'')"
  by (simp add: process_data_def dict_get_def lit_def ascii_runtime_def ascii_upper_def
        ascii_lower_def)

text \<open>
  C1, as stated, fails: for the dictionary \<^verbatim>\<open>{"name": None}\<close> the call
  \<^verbatim>\<open>None.upper()\<close> raises \<^verbatim>\<open>AttributeError\<close>, and no string is returned.
\<close>

theorem process_data_counterexample:
  "fst (process_data ascii_runtime [lit ''name'' \<mapsto> PNone])
     = Inl (AttributeError ''NoneType'' ''upper'')"
  by (simp add: process_data_def dict_get_def)

text \<open>
  C10. \<^verbatim>\<open>process_data\<close> leaves its argument as it found it: the dictionary after
  the call is the dictionary before it, whether the call returns or raises.
\<close>

theorem process_data_frame: "snd (process_data rt data) = data"
  by (simp add: process_data_def dict_get_def split: option.split sum.split)

section \<open>Properties of \<^verbatim>\<open>bad_function\<close> and \<^verbatim>\<open>BadClass.method\<close>\<close>

text \<open>
  Without an assignment in the body the name \<^verbatim>\<open>list\<close> is the builtin; with one it
  is the local, bound or not.
\<close>

lemma load_name_list_examples:
  "load_name [] Map.empty std_env ''list'' = Inr (BuiltinObj ''list'')"
  "load_name [''list''] Map.empty std_env ''list'' = Inl (UnboundLocalError ''list'')"
  "load_name [''list''] [''list'' \<mapsto> IntObj 7] std_env ''list'' = Inr (IntObj 7)"
  by (simp_all add: load_name_def std_env_def)

lemma load_name_not_assigned:
  "n \<notin> set assigned \<Longrightarrow> load_name assigned locals env n = load_global env n"
  by (simp add: load_name_def load_global_def)

lemma load_name_assigned:
  "n \<in> set assigned \<Longrightarrow> locals n = Some v \<Longrightarrow> load_name assigned locals env n = Inr v"
  by (simp add: load_name_def)

text \<open>
  The body, with its two reads resolved: the outcome is decided by what \<^verbatim>\<open>print\<close> is
  bound to and by what calling it does.
\<close>

lemma bad_function_body_unfold:
  "bad_function_body u co env st =
     (case load_global env ''print'' of
        Inl e \<Rightarrow> Some (Inl e, st)
      | Inr f \<Rightarrow>
         (case call_with_str co f (lit ''hello world'') st of
            None \<Rightarrow> None
          | Some (Inl e, st1) \<Rightarrow> Some (Inl e, st1)
          | Some (Inr r, st1) \<Rightarrow> Some (Inr (IntObj 3), st1)))"
  by (simp add: bad_function_body_def Let_def load_name_not_assigned load_name_assigned
        split: sum.split option.split prod.split)







text \<open>
  The same with \<^verbatim>\<open>NameError\<close> where no \<^verbatim>\<open>print\<close> is bound, and with \<^verbatim>\<open>TypeError\<close>
  where a global \<^verbatim>\<open>print\<close> is bound to an integer.
\<close>

lemma bad_function_unbound_print:
  "bad_function no_callables \<lparr>globals = Map.empty, builtins = Map.empty\<rparr> (StdoutOpen [])
     = Some (Inl (NameError ''print''), StdoutOpen [])"
  "bad_function no_callables
      \<lparr>globals = [''print'' \<mapsto> IntObj 0], builtins = builtins std_env\<rparr> (StdoutOpen [])
     = Some (Inl (TypeError ''int''), StdoutOpen [])"
  by (simp_all add: bad_function_def bad_function_body_unfold load_global_def load_name_def)

text \<open>
  C9. \<^verbatim>\<open>BadClass.method()\<close> returns the list \<^verbatim>\<open>[1, 2, 3, 4, 5]\<close> for every instance
  and whatever the globals and builtins bind \<^verbatim>\<open>list\<close> to: the name is a local of the
  method.
\<close>

theorem BadClass_method_returns:
  "BadClass_method env self = Inr (ListObj [IntObj 1, IntObj 2, IntObj 3, IntObj 4, IntObj 5])"
  by (simp add: BadClass_method_def load_name_def)

end
